theory Spec2Isabelle
  imports Complex_Main
begin

section \<open>Values of three.js that the passes handle\<close>

text \<open>
  The embedding follows \<^verbatim>\<open>src/index.ts\<close>. JavaScript numbers are taken as reals. The only
  arithmetic of the file is the product with \<^verbatim>\<open>GODRAYS_RESOLUTION_SCALE\<close> and \<^verbatim>\<open>Math.ceil\<close>;
  on a whole number the product with 0.5 is exact in double precision, and there the
  reals compute what the code computes. A double whose half is not a double (the
  smallest subnormal), \<^verbatim>\<open>NaN\<close> and the infinities have no counterpart among the reals:
  what is stated about sizes is stated for whole numbers.

  A parameter that the interface types as \<^verbatim>\<open>number\<close> can hold \<^verbatim>\<open>undefined\<close> at run time (a partial
  record may carry a key with that value), so the number parameters and the uniforms
  they are assigned to are \<open>real option\<close>, with \<open>None\<close> for \<^verbatim>\<open>undefined\<close>.

  Objects that only the pass itself holds (its \<^verbatim>\<open>Vector2\<close> resolutions, the colour copied by
  \<^verbatim>\<open>new THREE.Color(...)\<close>) are values. Objects of the host program that the pass keeps
  a reference to (the light's position, the camera's position and matrices) are addresses
  into a heap, so that a change the host makes in place is seen through the reference.
  A texture is known by its identity only.
\<close>

type_synonym ref = nat

type_synonym Vector2 = "real \<times> real"
type_synonym Vector3 = "real \<times> real \<times> real"
type_synonym Matrix4 = "real list"
type_synonym Color = "real \<times> real \<times> real"

record Heap =
  vector3s :: "ref \<Rightarrow> Vector3"
  matrix4s :: "ref \<Rightarrow> Matrix4"

text \<open>
  The value of a uniform that holds an object: \<open>Own v\<close> is an object the material created
  itself (\<^verbatim>\<open>new THREE.Vector3(0, 0, 0)\<close>), \<open>Ref a\<close> is the host's object at address \<open>a\<close>.
\<close>

datatype 'a objref = Own 'a | Ref ref

fun readVector3 :: "Heap \<Rightarrow> Vector3 objref \<Rightarrow> Vector3" where
  "readVector3 H (Own v) = v"
| "readVector3 H (Ref a) = vector3s H a"

fun readMatrix4 :: "Heap \<Rightarrow> Matrix4 objref \<Rightarrow> Matrix4" where
  "readMatrix4 H (Own m) = m"
| "readMatrix4 H (Ref a) = matrix4s H a"

text \<open>
  \<open>GodraysTexture\<close> is the texture of the render target that \<^verbatim>\<open>GodraysPass\<close> creates,
  \<open>BlueNoiseTexture\<close> the one loaded by \<^verbatim>\<open>getBlueNoiseTexture\<close>; every other texture comes
  from the host.
\<close>

datatype Texture = HostTexture nat | GodraysTexture | BlueNoiseTexture

text \<open>\<^verbatim>\<open>THREE.DepthPackingStrategies\<close>: the constants 3200 and 3201, both truthy.\<close>

datatype DepthPackingStrategies = BasicDepthPacking | RGBADepthPacking

datatype error = Error string | TypeError string

text \<open>
  A method either returns or throws; the object's state after the call is kept in both
  cases, since what was assigned before a \<^verbatim>\<open>throw\<close> stays assigned.
\<close>

datatype 's outcome = Return 's | Throw error 's

fun thrown :: "'s outcome \<Rightarrow> error option" where
  "thrown (Return s) = None"
| "thrown (Throw e s) = Some e"

fun after :: "'s outcome \<Rightarrow> 's" where
  "after (Return s) = s"
| "after (Throw e s) = s"

record WebGLRenderTarget =
  texture :: Texture
  width :: real
  height :: real

text \<open>Of \<^verbatim>\<open>THREE.WebGLRenderTarget.setSize\<close>: the target has the given width and height afterwards.\<close>

definition WebGLRenderTarget_setSize :: "real \<Rightarrow> real \<Rightarrow> WebGLRenderTarget \<Rightarrow> WebGLRenderTarget" where
  "WebGLRenderTarget_setSize w h t = t\<lparr>width := w, height := h\<rparr>"

record ShadowCamera =
  near :: real
  far :: real

text \<open>\<open>map_target\<close> is the field \<^verbatim>\<open>map\<close> of the light's shadow: \<open>None\<close> until the host has rendered it.\<close>

record PointLightShadow =
  map_target :: "WebGLRenderTarget option"
  camera :: ShadowCamera

text \<open>
  \<open>castShadow\<close> is the switch by which the host enables the shadow of a light; the passes
  never read it. \<open>shadow\<close> is the shadow object, which the passes test for presence.
\<close>

record PointLight =
  position :: ref
  castShadow :: bool
  shadow :: "PointLightShadow option"

record Camera =
  position :: ref
  projectionMatrixInverse :: ref
  matrixWorld :: ref

text \<open>
  The passes keep \<^verbatim>\<open>this.props\<close>, references to the host's light and camera, and read the
  objects anew at every call. Every operation that reads \<^verbatim>\<open>this.props\<close> therefore takes
  the contents of the two objects at the time of the call as its argument.
\<close>

record GodraysPassProps =
  pointLight :: PointLight
  camera :: Camera

definition GODRAYS_RESOLUTION_SCALE :: real where
  "GODRAYS_RESOLUTION_SCALE = 0.5"

definition Math_ceil :: "real \<Rightarrow> real" where
  "Math_ceil v = real_of_int \<lceil>v\<rceil>"

section \<open>Parameters\<close>

record GodraysPassParams =
  density :: "real option"
  maxDensity :: "real option"
  edgeStrength :: "real option"
  edgeRadius :: "real option"
  distanceAttenuation :: "real option"
  color :: Color

text \<open>
  A key of a \<^verbatim>\<open>Partial<...>\<close> record: \<open>Absent\<close> when the object does not have the key,
  \<open>Present v\<close> when it has; then \<open>v\<close> is \<open>None\<close> for the value \<^verbatim>\<open>undefined\<close>, which the type
  \<^verbatim>\<open>Partial<GodraysPassParams>\<close> admits for every key.
\<close>

datatype 'a key = Absent | Present 'a

record Partial_GodraysPassParams =
  density :: "real option key"
  maxDensity :: "real option key"
  edgeStrength :: "real option key"
  edgeRadius :: "real option key"
  distanceAttenuation :: "real option key"
  color :: "Color option key"

definition defaultParams :: GodraysPassParams where
  "defaultParams =
     \<lparr>GodraysPassParams.density = Some (1 / 128),
      GodraysPassParams.maxDensity = Some 0.5,
      GodraysPassParams.edgeStrength = Some 2,
      GodraysPassParams.edgeRadius = Some 1,
      GodraysPassParams.distanceAttenuation = Some 0.005,
      GodraysPassParams.color = (1, 1, 1)\<rparr>"

text \<open>
  \<^verbatim>\<open>{ ...defaultParams, ...partialParams, color: new THREE.Color(partialParams.color ?? defaultParams.color) }\<close>:
  the spread copies every key that the partial record has, also one whose value is
  \<^verbatim>\<open>undefined\<close>, over the default; only the colour falls back to the default for
  \<^verbatim>\<open>undefined\<close>, through \<^verbatim>\<open>??\<close>.
\<close>

definition populateParams :: "Partial_GodraysPassParams \<Rightarrow> GodraysPassParams" where
  "populateParams pp =
     \<lparr>GodraysPassParams.density =
        (case Partial_GodraysPassParams.density pp of
           Present v \<Rightarrow> v | Absent \<Rightarrow> GodraysPassParams.density defaultParams),
      GodraysPassParams.maxDensity =
        (case Partial_GodraysPassParams.maxDensity pp of
           Present v \<Rightarrow> v | Absent \<Rightarrow> GodraysPassParams.maxDensity defaultParams),
      GodraysPassParams.edgeStrength =
        (case Partial_GodraysPassParams.edgeStrength pp of
           Present v \<Rightarrow> v | Absent \<Rightarrow> GodraysPassParams.edgeStrength defaultParams),
      GodraysPassParams.edgeRadius =
        (case Partial_GodraysPassParams.edgeRadius pp of
           Present v \<Rightarrow> v | Absent \<Rightarrow> GodraysPassParams.edgeRadius defaultParams),
      GodraysPassParams.distanceAttenuation =
        (case Partial_GodraysPassParams.distanceAttenuation pp of
           Present v \<Rightarrow> v
         | Absent \<Rightarrow> GodraysPassParams.distanceAttenuation defaultParams),
      GodraysPassParams.color =
        (case Partial_GodraysPassParams.color pp of
           Present (Some c) \<Rightarrow> c
         | Present None \<Rightarrow> GodraysPassParams.color defaultParams
         | Absent \<Rightarrow> GodraysPassParams.color defaultParams)\<rparr>"

section \<open>The materials and the renderer\<close>

text \<open>
  A shader material is the record of its uniforms. Of \<^verbatim>\<open>THREE.WebGLRenderer\<close> the passes use \<^verbatim>\<open>setRenderTarget\<close> and \<^verbatim>\<open>render\<close>.
  The renderer is its current target (\<open>None\<close> is the screen) and the list of the draws
  it was asked for, oldest first; a draw is the fullscreen material drawn, with the
  uniforms it had then, and the target drawn into.
\<close>

record GodraysMaterial =
  density :: "real option"
  maxDensity :: "real option"
  distanceAttenuation :: "real option"
  sceneDepth :: "Texture option"
  lightPos :: "Vector3 objref"
  cameraPos :: "Vector3 objref"
  resolution :: Vector2
  projectionMatrixInv :: "Matrix4 objref"
  viewMatrixInv :: "Matrix4 objref"
  depthCube :: "Texture option"
  mapSize :: real
  pointLightCameraNear :: real
  pointLightCameraFar :: real
  blueNoise :: "Texture option"
  noiseResolution :: Vector2

record GodraysCompositorMaterial =
  godrays :: Texture
  sceneDiffuse :: "Texture option"
  sceneDepth :: "Texture option"
  edgeStrength :: "real option"
  edgeRadius :: "real option"
  color :: Color
  resolution :: Vector2

datatype FullscreenMaterial =
  IllumMaterial GodraysMaterial
| CompositorMaterial GodraysCompositorMaterial

type_synonym draw = "FullscreenMaterial \<times> WebGLRenderTarget option"

record WebGLRenderer =
  renderTarget :: "WebGLRenderTarget option"
  draws :: "draw list"

definition WebGLRenderer_setRenderTarget ::
  "WebGLRenderTarget option \<Rightarrow> WebGLRenderer \<Rightarrow> WebGLRenderer" where
  "WebGLRenderer_setRenderTarget t rr = rr\<lparr>renderTarget := t\<rparr>"

definition WebGLRenderer_render :: "FullscreenMaterial \<Rightarrow> WebGLRenderer \<Rightarrow> WebGLRenderer" where
  "WebGLRenderer_render m rr = rr\<lparr>draws := draws rr @ [(m, renderTarget rr)]\<rparr>"

section \<open>The illumination pass\<close>

text \<open>The identity matrix of \<^verbatim>\<open>new THREE.Matrix4()\<close>, column by column.\<close>

definition Matrix4_identity :: Matrix4 where
  "Matrix4_identity = [1, 0, 0, 0, 0, 1, 0, 0, 0, 0, 1, 0, 0, 0, 0, 1]"

definition GodraysMaterial_new :: GodraysMaterial where
  "GodraysMaterial_new =
     \<lparr>GodraysMaterial.density = Some (1 / 128),
      GodraysMaterial.maxDensity = Some 0.5,
      GodraysMaterial.distanceAttenuation = Some 0.005,
      GodraysMaterial.sceneDepth = None,
      lightPos = Own (0, 0, 0),
      cameraPos = Own (0, 0, 0),
      GodraysMaterial.resolution = (1, 1),
      projectionMatrixInv = Own Matrix4_identity,
      viewMatrixInv = Own Matrix4_identity,
      depthCube = None,
      mapSize = 1,
      pointLightCameraNear = 0.1,
      pointLightCameraFar = 1000,
      blueNoise = None,
      noiseResolution = (1, 1)\<rparr>"

text \<open>
  The callback of the constructor's \<^verbatim>\<open>getBlueNoiseTexture().then(...)\<close>, which runs some time
  after the constructor has returned, with the width and height of the loaded image.
\<close>

definition GodraysMaterial_blueNoiseLoaded :: "real \<Rightarrow> real \<Rightarrow> GodraysMaterial \<Rightarrow> GodraysMaterial" where
  "GodraysMaterial_blueNoiseLoaded w h u =
     u\<lparr>blueNoise := Some BlueNoiseTexture, noiseResolution := (w, h)\<rparr>"

record GodraysIllumPass =
  material :: GodraysMaterial
  shadowMapSet :: bool
  lastParams :: GodraysPassParams

definition GodraysIllumPass_updateUniforms ::
  "GodraysPassProps \<Rightarrow> GodraysPassParams \<Rightarrow> GodraysIllumPass \<Rightarrow> GodraysIllumPass outcome" where
  "GodraysIllumPass_updateUniforms pr ps s =
     (case shadow (pointLight pr) of
        None \<Rightarrow> Throw (Error ''Point light must have shadow'') s
      | Some pointLightShadow \<Rightarrow>
          Return (s\<lparr>material := (material s)
            \<lparr>GodraysMaterial.density := GodraysPassParams.density ps,
             GodraysMaterial.maxDensity := GodraysPassParams.maxDensity ps,
             lightPos := Ref (PointLight.position (pointLight pr)),
             cameraPos := Ref (Camera.position (GodraysPassProps.camera pr)),
             projectionMatrixInv := Ref (projectionMatrixInverse (GodraysPassProps.camera pr)),
             viewMatrixInv := Ref (matrixWorld (GodraysPassProps.camera pr)),
             depthCube :=
               (case map_target pointLightShadow of
                  Some t \<Rightarrow> Some (texture t) | None \<Rightarrow> None),
             mapSize :=
               (case map_target pointLightShadow of
                  Some t \<Rightarrow> height t | None \<Rightarrow> 1),
             pointLightCameraNear := near (PointLightShadow.camera pointLightShadow),
             pointLightCameraFar := far (PointLightShadow.camera pointLightShadow),
             GodraysMaterial.distanceAttenuation := GodraysPassParams.distanceAttenuation ps\<rparr>\<rparr>))"

definition GodraysIllumPass_new ::
  "GodraysPassProps \<Rightarrow> GodraysPassParams \<Rightarrow> error + GodraysIllumPass" where
  "GodraysIllumPass_new pr ps =
     (case GodraysIllumPass_updateUniforms pr ps
             \<lparr>material = GodraysMaterial_new, shadowMapSet = False, lastParams = ps\<rparr> of
        Throw e s \<Rightarrow> Inl e
      | Return s \<Rightarrow> Inr s)"

definition GodraysIllumPass_setSize :: "real \<Rightarrow> real \<Rightarrow> GodraysIllumPass \<Rightarrow> GodraysIllumPass" where
  "GodraysIllumPass_setSize w h s =
     s\<lparr>material := (material s)
       \<lparr>GodraysMaterial.resolution :=
          (Math_ceil (w * GODRAYS_RESOLUTION_SCALE), Math_ceil (h * GODRAYS_RESOLUTION_SCALE))\<rparr>\<rparr>"

text \<open>
  \<^verbatim>\<open>renderer.setRenderTarget(outputBuffer); renderer.render(this.scene, this.camera)\<close>: the
  scene of a pass holds its fullscreen material.
\<close>

definition GodraysIllumPass_draw ::
  "WebGLRenderTarget \<Rightarrow> WebGLRenderer \<Rightarrow> GodraysIllumPass \<Rightarrow> WebGLRenderer" where
  "GodraysIllumPass_draw outputBuffer rr s =
     WebGLRenderer_render (IllumMaterial (material s))
       (WebGLRenderer_setRenderTarget (Some outputBuffer) rr)"

text \<open>
  The condition of \<^verbatim>\<open>render\<close> is \<^verbatim>\<open>!this.shadowMapSet && this.props.pointLight.shadow.map?.texture\<close>:
  once \<^verbatim>\<open>shadowMapSet\<close> is true the light is not read; before, with no shadow on the
  light, reading \<^verbatim>\<open>map\<close> of \<^verbatim>\<open>undefined\<close> is a \<^verbatim>\<open>TypeError\<close>. The state is the renderer with
  the pass.
\<close>

definition GodraysIllumPass_render ::
  "GodraysPassProps \<Rightarrow> WebGLRenderTarget \<Rightarrow> WebGLRenderer \<times> GodraysIllumPass
     \<Rightarrow> (WebGLRenderer \<times> GodraysIllumPass) outcome" where
  "GodraysIllumPass_render pr outputBuffer st =
     (case st of (rr, s) \<Rightarrow>
       if shadowMapSet s
       then Return (GodraysIllumPass_draw outputBuffer rr s, s)
       else
         (case shadow (pointLight pr) of
            None \<Rightarrow>
              Throw (TypeError ''Cannot read properties of undefined (reading map)'') (rr, s)
          | Some pointLightShadow \<Rightarrow>
              if map_target pointLightShadow \<noteq> None
              then (case GodraysIllumPass_updateUniforms pr (lastParams s) s of
                      Throw e s1 \<Rightarrow> Throw e (rr, s1)
                    | Return s1 \<Rightarrow>
                        Return
                          (GodraysIllumPass_draw outputBuffer rr (s1\<lparr>shadowMapSet := True\<rparr>),
                           s1\<lparr>shadowMapSet := True\<rparr>))
              else Return (GodraysIllumPass_draw outputBuffer rr s, s)))"

definition unsupportedDepthPacking :: "DepthPackingStrategies option \<Rightarrow> bool" where
  "unsupportedDepthPacking dp =
     (case dp of None \<Rightarrow> False | Some k \<Rightarrow> k \<noteq> BasicDepthPacking)"

definition GodraysIllumPass_setDepthTexture ::
  "Texture \<Rightarrow> DepthPackingStrategies option \<Rightarrow> GodraysIllumPass \<Rightarrow> GodraysIllumPass outcome" where
  "GodraysIllumPass_setDepthTexture t dp s =
     (let s1 = s\<lparr>material := (material s)\<lparr>GodraysMaterial.sceneDepth := Some t\<rparr>\<rparr>
      in if unsupportedDepthPacking dp
         then Throw (Error ''Only BasicDepthPacking is supported'') s1
         else Return s1)"

section \<open>The compositor pass\<close>

record GodraysCompositorMaterialProps =
  godrays :: Texture
  edgeStrength :: "real option"
  edgeRadius :: "real option"
  color :: Color

definition GodraysCompositorMaterial_updateUniforms ::
  "real option \<Rightarrow> real option \<Rightarrow> Color \<Rightarrow> GodraysCompositorMaterial
     \<Rightarrow> GodraysCompositorMaterial" where
  "GodraysCompositorMaterial_updateUniforms es er c u =
     u\<lparr>GodraysCompositorMaterial.edgeStrength := es,
       GodraysCompositorMaterial.edgeRadius := er,
       GodraysCompositorMaterial.color := c\<rparr>"

definition GodraysCompositorMaterial_new ::
  "GodraysCompositorMaterialProps \<Rightarrow> GodraysCompositorMaterial" where
  "GodraysCompositorMaterial_new cp =
     GodraysCompositorMaterial_updateUniforms
       (GodraysCompositorMaterialProps.edgeStrength cp)
       (GodraysCompositorMaterialProps.edgeRadius cp)
       (GodraysCompositorMaterialProps.color cp)
       \<lparr>GodraysCompositorMaterial.godrays = GodraysCompositorMaterialProps.godrays cp,
        sceneDiffuse = None,
        GodraysCompositorMaterial.sceneDepth = None,
        GodraysCompositorMaterial.edgeStrength = GodraysCompositorMaterialProps.edgeStrength cp,
        GodraysCompositorMaterial.edgeRadius = GodraysCompositorMaterialProps.edgeRadius cp,
        GodraysCompositorMaterial.color = GodraysCompositorMaterialProps.color cp,
        GodraysCompositorMaterial.resolution = (1, 1)\<rparr>"

definition GodraysCompositorMaterial_setSize ::
  "real \<Rightarrow> real \<Rightarrow> GodraysCompositorMaterial \<Rightarrow> GodraysCompositorMaterial" where
  "GodraysCompositorMaterial_setSize w h u = u\<lparr>GodraysCompositorMaterial.resolution := (w, h)\<rparr>"

record GodraysCompositorPass =
  fullscreenMaterial :: GodraysCompositorMaterial

definition GodraysCompositorPass_new :: "GodraysCompositorMaterialProps \<Rightarrow> GodraysCompositorPass" where
  "GodraysCompositorPass_new cp = \<lparr>fullscreenMaterial = GodraysCompositorMaterial_new cp\<rparr>"

definition GodraysCompositorPass_updateUniforms ::
  "GodraysPassParams \<Rightarrow> GodraysCompositorPass \<Rightarrow> GodraysCompositorPass" where
  "GodraysCompositorPass_updateUniforms ps s =
     s\<lparr>fullscreenMaterial :=
         GodraysCompositorMaterial_updateUniforms
           (GodraysPassParams.edgeStrength ps)
           (GodraysPassParams.edgeRadius ps)
           (GodraysPassParams.color ps)
           (fullscreenMaterial s)\<rparr>"

definition GodraysCompositorPass_render ::
  "WebGLRenderTarget \<Rightarrow> WebGLRenderTarget option \<Rightarrow> WebGLRenderer \<times> GodraysCompositorPass
     \<Rightarrow> WebGLRenderer \<times> GodraysCompositorPass" where
  "GodraysCompositorPass_render inputBuffer outputBuffer st =
     (case st of (rr, s) \<Rightarrow>
        (let s1 = s\<lparr>fullscreenMaterial := (fullscreenMaterial s)
                      \<lparr>sceneDiffuse := Some (texture inputBuffer)\<rparr>\<rparr>
         in (WebGLRenderer_render (CompositorMaterial (fullscreenMaterial s1))
               (WebGLRenderer_setRenderTarget outputBuffer rr),
             s1)))"

definition GodraysCompositorPass_setDepthTexture ::
  "Texture \<Rightarrow> DepthPackingStrategies option \<Rightarrow> GodraysCompositorPass
     \<Rightarrow> GodraysCompositorPass outcome" where
  "GodraysCompositorPass_setDepthTexture t dp s =
     (if unsupportedDepthPacking dp
      then Throw (Error ''Only BasicDepthPacking is supported'') s
      else Return (s\<lparr>fullscreenMaterial := (fullscreenMaterial s)
                      \<lparr>GodraysCompositorMaterial.sceneDepth := Some t\<rparr>\<rparr>))"

definition GodraysCompositorPass_setSize ::
  "real \<Rightarrow> real \<Rightarrow> GodraysCompositorPass \<Rightarrow> GodraysCompositorPass" where
  "GodraysCompositorPass_setSize w h s =
     s\<lparr>fullscreenMaterial := GodraysCompositorMaterial_setSize w h (fullscreenMaterial s)\<rparr>"

section \<open>The pass that the host adds to its composer\<close>

text \<open>
  \<open>renderToScreen\<close> is the field of the base class \<^verbatim>\<open>Pass\<close> that \<^verbatim>\<open>render\<close> reads; it is
  \<^verbatim>\<open>false\<close> until the host sets it. The flag \<^verbatim>\<open>needsDepthTexture\<close>, which the constructor
  sets for the composer and no method of the file reads, and \<^verbatim>\<open>dispose\<close> are left out.
\<close>

record GodraysPass =
  godraysRenderTarget :: WebGLRenderTarget
  illumPass :: GodraysIllumPass
  compositorPass :: GodraysCompositorPass
  renderToScreen :: bool

definition GodraysPass_setParams ::
  "GodraysPassProps \<Rightarrow> Partial_GodraysPassParams \<Rightarrow> GodraysPass \<Rightarrow> GodraysPass outcome" where
  "GodraysPass_setParams pr pp s =
     (let ps = populateParams pp
      in case GodraysIllumPass_updateUniforms pr ps (illumPass s) of
           Throw e i \<Rightarrow> Throw e (s\<lparr>illumPass := i\<rparr>)
         | Return i \<Rightarrow>
             Return (s\<lparr>illumPass := i,
                       compositorPass :=
                         GodraysCompositorPass_updateUniforms ps (compositorPass s)\<rparr>))"

text \<open>
  \<^verbatim>\<open>this.setParams(params)\<close> passes a full parameter record where a partial one is expected:
  every key is there.
\<close>

definition asPartial :: "GodraysPassParams \<Rightarrow> Partial_GodraysPassParams" where
  "asPartial ps =
     \<lparr>Partial_GodraysPassParams.density = Present (GodraysPassParams.density ps),
      Partial_GodraysPassParams.maxDensity = Present (GodraysPassParams.maxDensity ps),
      Partial_GodraysPassParams.edgeStrength = Present (GodraysPassParams.edgeStrength ps),
      Partial_GodraysPassParams.edgeRadius = Present (GodraysPassParams.edgeRadius ps),
      Partial_GodraysPassParams.distanceAttenuation =
        Present (GodraysPassParams.distanceAttenuation ps),
      Partial_GodraysPassParams.color = Present (Some (GodraysPassParams.color ps))\<rparr>"

definition GodraysPass_new ::
  "PointLight \<Rightarrow> Camera \<Rightarrow> Partial_GodraysPassParams \<Rightarrow> error + GodraysPass" where
  "GodraysPass_new light cam pp =
     (let pr = \<lparr>pointLight = light, GodraysPassProps.camera = cam\<rparr>;
          target = \<lparr>texture = GodraysTexture, width = 1, height = 1\<rparr>;
          ps = populateParams pp
      in case GodraysIllumPass_new pr ps of
           Inl e \<Rightarrow> Inl e
         | Inr i \<Rightarrow>
             (case GodraysPass_setParams pr (asPartial ps)
                     \<lparr>godraysRenderTarget = target,
                      illumPass = i,
                      compositorPass =
                        GodraysCompositorPass_new
                          \<lparr>GodraysCompositorMaterialProps.godrays = texture target,
                           GodraysCompositorMaterialProps.edgeStrength =
                             GodraysPassParams.edgeStrength ps,
                           GodraysCompositorMaterialProps.edgeRadius =
                             GodraysPassParams.edgeRadius ps,
                           GodraysCompositorMaterialProps.color = GodraysPassParams.color ps\<rparr>,
                      renderToScreen = False\<rparr> of
                Throw e s \<Rightarrow> Inl e
              | Return s \<Rightarrow> Inr s))"

definition GodraysPass_render ::
  "GodraysPassProps \<Rightarrow> WebGLRenderTarget \<Rightarrow> WebGLRenderTarget \<Rightarrow> WebGLRenderer \<times> GodraysPass
     \<Rightarrow> (WebGLRenderer \<times> GodraysPass) outcome" where
  "GodraysPass_render pr inputBuffer outputBuffer st =
     (case st of (rr, s) \<Rightarrow>
        (case GodraysIllumPass_render pr (godraysRenderTarget s) (rr, illumPass s) of
           Throw e (rr1, i) \<Rightarrow> Throw e (rr1, s\<lparr>illumPass := i\<rparr>)
         | Return (rr1, i) \<Rightarrow>
             (case GodraysCompositorPass_render inputBuffer
                     (if renderToScreen s then None else Some outputBuffer)
                     (rr1, compositorPass s) of
                (rr2, c) \<Rightarrow> Return (rr2, s\<lparr>illumPass := i, compositorPass := c\<rparr>))))"

definition GodraysPass_setDepthTexture ::
  "Texture \<Rightarrow> DepthPackingStrategies option \<Rightarrow> GodraysPass \<Rightarrow> GodraysPass outcome" where
  "GodraysPass_setDepthTexture t dp s =
     (case GodraysIllumPass_setDepthTexture t dp (illumPass s) of
        Throw e i \<Rightarrow> Throw e (s\<lparr>illumPass := i\<rparr>)
      | Return i \<Rightarrow>
          (case GodraysCompositorPass_setDepthTexture t dp (compositorPass s) of
             Throw e c \<Rightarrow> Throw e (s\<lparr>illumPass := i, compositorPass := c\<rparr>)
           | Return c \<Rightarrow> Return (s\<lparr>illumPass := i, compositorPass := c\<rparr>)))"

definition GodraysPass_setSize :: "real \<Rightarrow> real \<Rightarrow> GodraysPass \<Rightarrow> GodraysPass" where
  "GodraysPass_setSize w h s =
     s\<lparr>godraysRenderTarget :=
         WebGLRenderTarget_setSize
           (Math_ceil (w * GODRAYS_RESOLUTION_SCALE))
           (Math_ceil (h * GODRAYS_RESOLUTION_SCALE))
           (godraysRenderTarget s),
       illumPass := GodraysIllumPass_setSize w h (illumPass s),
       compositorPass := GodraysCompositorPass_setSize w h (compositorPass s)\<rparr>"

section \<open>The density that the illumination shader accumulates\<close>

text \<open>
  Modelled from the spec: the fragment shader \<^verbatim>\<open>godrays.frag\<close>, which \<^verbatim>\<open>index.ts\<close> imports for
  \<^verbatim>\<open>GodraysMaterial\<close>, is not among the sources. A step of the ray is what the shadow test
  found there: whether the sample is lit, and its distance from the light.
\<close>

record RaySample =
  lit :: bool
  distanceFromLight :: real

text \<open>
  Modelled from the spec: a lit sample adds
  \<open>density \<times> exp(-distanceAttenuation \<times> distanceFromLight)\<close> to the accumulator, an occluded
  one adds nothing. The arguments are the numbers that the shader reads from the
  uniforms \<^verbatim>\<open>density\<close> and \<^verbatim>\<open>distanceAttenuation\<close>.
\<close>

definition stepContribution :: "real \<Rightarrow> real \<Rightarrow> RaySample \<Rightarrow> real" where
  "stepContribution d att smp =
     (if lit smp then d * exp (- att * distanceFromLight smp) else 0)"

text \<open>
  Modelled from the spec: the running accumulator is clamped to \<open>maxDensity\<close>, the number
  \<open>md\<close> of the uniform of that name, after each step.
\<close>

fun accumulate :: "real \<Rightarrow> real \<Rightarrow> real \<Rightarrow> real \<Rightarrow> RaySample list \<Rightarrow> real" where
  "accumulate d md att acc [] = acc"
| "accumulate d md att acc (smp # smps) =
     accumulate d md att (min md (acc + stepContribution d att smp)) smps"

text \<open>Modelled from the spec: the accumulator starts at zero; its final value is the pixel.\<close>

definition densityAccumulator :: "real \<Rightarrow> real \<Rightarrow> real \<Rightarrow> RaySample list \<Rightarrow> real" where
  "densityAccumulator d md att smps = accumulate d md att 0 smps"

section \<open>A host program\<close>

text \<open>
  A light that casts a shadow whose map the host has not rendered yet, a camera, and the
  objects \<^verbatim>\<open>{}\<close> and \<^verbatim>\<open>{ density: 1 }\<close> as partial parameters.
\<close>

definition hostShadowCamera :: ShadowCamera where
  "hostShadowCamera = \<lparr>near = 0.1, far = 1000\<rparr>"

definition hostLight :: PointLight where
  "hostLight =
     \<lparr>PointLight.position = 1,
      castShadow = True,
      shadow = Some \<lparr>map_target = None, PointLightShadow.camera = hostShadowCamera\<rparr>\<rparr>"

definition hostCamera :: Camera where
  "hostCamera = \<lparr>Camera.position = 2, projectionMatrixInverse = 3, matrixWorld = 4\<rparr>"

definition hostProps :: GodraysPassProps where
  "hostProps = \<lparr>pointLight = hostLight, GodraysPassProps.camera = hostCamera\<rparr>"

text \<open>
  The light as \<^verbatim>\<open>new THREE.PointLight(...)\<close> makes it, its shadow not enabled: the shadow
  object is there, \<^verbatim>\<open>castShadow\<close> is false, and no map is ever rendered for it.
\<close>

definition plainLight :: PointLight where
  "plainLight = hostLight\<lparr>castShadow := False\<rparr>"

definition plainProps :: GodraysPassProps where
  "plainProps = \<lparr>pointLight = plainLight, GodraysPassProps.camera = hostCamera\<rparr>"

definition noParams :: Partial_GodraysPassParams where
  "noParams =
     \<lparr>Partial_GodraysPassParams.density = Absent,
      Partial_GodraysPassParams.maxDensity = Absent,
      Partial_GodraysPassParams.edgeStrength = Absent,
      Partial_GodraysPassParams.edgeRadius = Absent,
      Partial_GodraysPassParams.distanceAttenuation = Absent,
      Partial_GodraysPassParams.color = Absent\<rparr>"

definition denseParams :: Partial_GodraysPassParams where
  "denseParams = noParams\<lparr>Partial_GodraysPassParams.density := Present (Some 1)\<rparr>"

text \<open>The shadow map once the host has rendered it, and the light and props from then on.\<close>

definition shadowTarget :: "nat \<Rightarrow> WebGLRenderTarget" where
  "shadowTarget n = \<lparr>texture = HostTexture n, width = 1024, height = 1024\<rparr>"

definition hostPropsWithMap :: "nat \<Rightarrow> GodraysPassProps" where
  "hostPropsWithMap n =
     \<lparr>pointLight =
        \<lparr>PointLight.position = 1,
         castShadow = True,
         shadow = Some \<lparr>map_target = Some (shadowTarget n),
                        PointLightShadow.camera = hostShadowCamera\<rparr>\<rparr>,
      GodraysPassProps.camera = hostCamera\<rparr>"

definition hostInput :: WebGLRenderTarget where
  "hostInput = \<lparr>texture = HostTexture 10, width = 800, height = 600\<rparr>"

definition hostOutput :: WebGLRenderTarget where
  "hostOutput = \<lparr>texture = HostTexture 11, width = 800, height = 600\<rparr>"

definition hostRenderer :: WebGLRenderer where
  "hostRenderer = \<lparr>renderTarget = None, draws = []\<rparr>"

text \<open>\<^verbatim>\<open>new GodraysPass(light, camera)\<close>, then \<^verbatim>\<open>setParams({ density: 1 })\<close>.\<close>

definition newPass :: GodraysPass where
  "newPass = projr (GodraysPass_new hostLight hostCamera noParams)"

definition densePass :: GodraysPass where
  "densePass = after (GodraysPass_setParams hostProps denseParams newPass)"

text \<open>\<^verbatim>\<open>new GodraysPass(light, camera)\<close> for the light whose shadow is not enabled.\<close>

definition plainPass :: GodraysPass where
  "plainPass = projr (GodraysPass_new plainLight hostCamera noParams)"

text \<open>
  A frame before the shadow map exists, then frames with the shadow map \<open>n\<close> rendered by
  the host.
\<close>

definition frame :: "GodraysPassProps \<Rightarrow> GodraysPass \<Rightarrow> GodraysPass" where
  "frame pr s = snd (after (GodraysPass_render pr hostInput hostOutput (hostRenderer, s)))"

text \<open>
  The illumination pass after a first frame that found the shadow map 1, and a heap for
  the host's vectors and matrices.
\<close>

definition shadowedIllum :: GodraysIllumPass where
  "shadowedIllum = illumPass (frame (hostPropsWithMap 1) newPass)"

definition hostHeap :: Heap where
  "hostHeap = \<lparr>vector3s = (\<lambda>a. (real a, 20, 0)), matrix4s = (\<lambda>a. [real a])\<rparr>"

section \<open>Unfolding the operations\<close>

lemmas pass_defs =
  GodraysPass_new_def GodraysPass_setParams_def GodraysIllumPass_new_def
  GodraysIllumPass_updateUniforms_def GodraysCompositorPass_new_def
  GodraysCompositorMaterial_new_def GodraysCompositorMaterial_updateUniforms_def
  GodraysCompositorPass_updateUniforms_def populateParams_def asPartial_def
  defaultParams_def GodraysMaterial_new_def

lemmas render_defs =
  GodraysPass_render_def GodraysIllumPass_render_def GodraysIllumPass_draw_def
  GodraysCompositorPass_render_def WebGLRenderer_render_def WebGLRenderer_setRenderTarget_def

lemmas depth_defs =
  GodraysIllumPass_setDepthTexture_def GodraysCompositorPass_setDepthTexture_def
  GodraysPass_setDepthTexture_def unsupportedDepthPacking_def

lemmas size_defs =
  GodraysPass_setSize_def GodraysIllumPass_setSize_def GodraysCompositorPass_setSize_def
  GodraysCompositorMaterial_setSize_def WebGLRenderTarget_setSize_def

lemmas host_defs =
  hostLight_def hostCamera_def hostProps_def noParams_def denseParams_def
  hostShadowCamera_def shadowTarget_def hostPropsWithMap_def hostInput_def hostOutput_def
  hostRenderer_def plainLight_def plainProps_def

lemma newPass_constructed: "\<not> isl (GodraysPass_new hostLight hostCamera noParams)"
  by (simp add: pass_defs host_defs)

section \<open>Parameter updates\<close>

text \<open>
  After \<^verbatim>\<open>setParams({ density: 1 })\<close> the density uniform is 1. A following \<^verbatim>\<open>setParams({})\<close>
  does not keep it: the uniform is the default \<open>1/128\<close> again.
\<close>

theorem setParams_forgets_prior_value:
  "GodraysMaterial.density (material (illumPass densePass)) = Some 1 \<and>
   GodraysMaterial.density (material (illumPass
       (after (GodraysPass_setParams hostProps noParams densePass)))) = Some (1 / 128) \<and>
   GodraysMaterial.density (material (illumPass
       (after (GodraysPass_setParams hostProps noParams densePass)))) \<noteq>
     GodraysMaterial.density (material (illumPass densePass))"
  by (simp add: densePass_def newPass_def pass_defs host_defs)

text \<open>
  Claim C1, as amended: when the light has a shadow object, \<^verbatim>\<open>GodraysPass.setParams\<close> returns,
  and each of the six parameter uniforms is, whatever it was before the call: for a key
  that the partial record does not have, the library default (\<open>1/128\<close>, \<open>0.5\<close>, \<open>0.005\<close>, \<open>2\<close>,
  \<open>1\<close>, white); for a key that it has, the value of the key, which for the five numbers
  may be \<^verbatim>\<open>undefined\<close>; the colour is white also for a colour key whose value is
  \<^verbatim>\<open>undefined\<close>.
\<close>

theorem setParams_defaults:
  assumes "shadow (pointLight pr) \<noteq> None"
  shows "thrown (GodraysPass_setParams pr pp s) = None \<and>
    GodraysMaterial.density (material (illumPass (after (GodraysPass_setParams pr pp s)))) =
      (case Partial_GodraysPassParams.density pp of
         Present v \<Rightarrow> v | Absent \<Rightarrow> Some (1 / 128)) \<and>
    GodraysMaterial.maxDensity (material (illumPass (after (GodraysPass_setParams pr pp s)))) =
      (case Partial_GodraysPassParams.maxDensity pp of
         Present v \<Rightarrow> v | Absent \<Rightarrow> Some 0.5) \<and>
    GodraysMaterial.distanceAttenuation
        (material (illumPass (after (GodraysPass_setParams pr pp s)))) =
      (case Partial_GodraysPassParams.distanceAttenuation pp of
         Present v \<Rightarrow> v | Absent \<Rightarrow> Some 0.005) \<and>
    GodraysCompositorMaterial.edgeStrength
        (fullscreenMaterial (compositorPass (after (GodraysPass_setParams pr pp s)))) =
      (case Partial_GodraysPassParams.edgeStrength pp of
         Present v \<Rightarrow> v | Absent \<Rightarrow> Some 2) \<and>
    GodraysCompositorMaterial.edgeRadius
        (fullscreenMaterial (compositorPass (after (GodraysPass_setParams pr pp s)))) =
      (case Partial_GodraysPassParams.edgeRadius pp of
         Present v \<Rightarrow> v | Absent \<Rightarrow> Some 1) \<and>
    GodraysCompositorMaterial.color
        (fullscreenMaterial (compositorPass (after (GodraysPass_setParams pr pp s)))) =
      (case Partial_GodraysPassParams.color pp of
         Present (Some c) \<Rightarrow> c | Present None \<Rightarrow> (1, 1, 1) | Absent \<Rightarrow> (1, 1, 1))"
proof -
  from assms obtain sh where sh: "shadow (pointLight pr) = Some sh"
    by blast
  show ?thesis
    by (simp add: pass_defs sh split: key.split option.split)
qed

text \<open>
  At \<^verbatim>\<open>setParams({ maxDensity: 2, edgeRadius: undefined })\<close> on the pass whose density was 1:
  the density is the default again, the maximum is 2, the edge radius is \<^verbatim>\<open>undefined\<close>.
\<close>

theorem setParams_defaults_witness:
  "shadow (pointLight hostProps) \<noteq> None \<and>
   GodraysMaterial.density (material (illumPass densePass)) = Some 1 \<and>
   thrown (GodraysPass_setParams hostProps
       (noParams\<lparr>Partial_GodraysPassParams.maxDensity := Present (Some 2),
                 Partial_GodraysPassParams.edgeRadius := Present None\<rparr>) densePass) = None \<and>
   GodraysMaterial.density (material (illumPass (after (GodraysPass_setParams hostProps
       (noParams\<lparr>Partial_GodraysPassParams.maxDensity := Present (Some 2),
                 Partial_GodraysPassParams.edgeRadius := Present None\<rparr>) densePass)))) =
     Some (1 / 128) \<and>
   GodraysMaterial.maxDensity (material (illumPass (after (GodraysPass_setParams hostProps
       (noParams\<lparr>Partial_GodraysPassParams.maxDensity := Present (Some 2),
                 Partial_GodraysPassParams.edgeRadius := Present None\<rparr>) densePass)))) =
     Some 2 \<and>
   GodraysCompositorMaterial.edgeRadius (fullscreenMaterial (compositorPass
     (after (GodraysPass_setParams hostProps
       (noParams\<lparr>Partial_GodraysPassParams.maxDensity := Present (Some 2),
                 Partial_GodraysPassParams.edgeRadius := Present None\<rparr>) densePass)))) =
     None"
proof -
  have h: "shadow (pointLight hostProps) \<noteq> None"
    by (simp add: host_defs)
  have d: "GodraysMaterial.density (material (illumPass densePass)) = Some 1"
    by (simp add: densePass_def newPass_def pass_defs host_defs)
  show ?thesis
    using h d setParams_defaults
      [OF h, of "noParams\<lparr>Partial_GodraysPassParams.maxDensity := Present (Some 2),
                          Partial_GodraysPassParams.edgeRadius := Present None\<rparr>" densePass]
    by (simp add: noParams_def)
qed

section \<open>The depth texture\<close>

text \<open>
  Claim C2: \<^verbatim>\<open>setDepthTexture\<close> of the illumination pass, of the compositor pass and of
  \<^verbatim>\<open>GodraysPass\<close>, called with a depth packing that is not \<^verbatim>\<open>BasicDepthPacking\<close>, throws
  \<^verbatim>\<open>Error("Only BasicDepthPacking is supported")\<close> from that very call.
\<close>

theorem setDepthTexture_rejects:
  assumes "dp \<noteq> BasicDepthPacking"
  shows "thrown (GodraysIllumPass_setDepthTexture t (Some dp) i) =
           Some (Error ''Only BasicDepthPacking is supported'') \<and>
         thrown (GodraysCompositorPass_setDepthTexture t (Some dp) c) =
           Some (Error ''Only BasicDepthPacking is supported'') \<and>
         thrown (GodraysPass_setDepthTexture t (Some dp) s) =
           Some (Error ''Only BasicDepthPacking is supported'')"
  using assms by (simp add: depth_defs Let_def)

theorem setDepthTexture_rejects_witness:
  "RGBADepthPacking \<noteq> BasicDepthPacking \<and>
   thrown (GodraysIllumPass_setDepthTexture (HostTexture 7) (Some RGBADepthPacking)
       (illumPass newPass)) =
     Some (Error ''Only BasicDepthPacking is supported'') \<and>
   thrown (GodraysCompositorPass_setDepthTexture (HostTexture 7) (Some RGBADepthPacking)
       (compositorPass newPass)) =
     Some (Error ''Only BasicDepthPacking is supported'') \<and>
   thrown (GodraysPass_setDepthTexture (HostTexture 7) (Some RGBADepthPacking) newPass) =
     Some (Error ''Only BasicDepthPacking is supported'')"
proof -
  have h: "RGBADepthPacking \<noteq> BasicDepthPacking"
    by simp
  show ?thesis
    using h setDepthTexture_rejects
      [OF h, of "HostTexture 7" "illumPass newPass" "compositorPass newPass" newPass]
    by simp
qed

text \<open>With no packing given, or with the basic one, the call returns.\<close>

lemma setDepthTexture_accepts:
  "dp = None \<or> dp = Some BasicDepthPacking \<Longrightarrow>
   thrown (GodraysPass_setDepthTexture t dp s) = None"
  by (auto simp add: depth_defs Let_def)

text \<open>
  Claim C10: when \<^verbatim>\<open>GodraysPass.setDepthTexture\<close> throws for an unsupported packing, the
  illumination pass already has the new texture as its \<^verbatim>\<open>sceneDepth\<close> uniform, and the
  compositor pass still has the \<^verbatim>\<open>sceneDepth\<close> it had before the call.
\<close>

theorem setDepthTexture_not_atomic:
  assumes "dp \<noteq> BasicDepthPacking"
  shows "thrown (GodraysPass_setDepthTexture t (Some dp) s) =
           Some (Error ''Only BasicDepthPacking is supported'') \<and>
         GodraysMaterial.sceneDepth
             (material (illumPass (after (GodraysPass_setDepthTexture t (Some dp) s)))) =
           Some t \<and>
         GodraysCompositorMaterial.sceneDepth
             (fullscreenMaterial
                (compositorPass (after (GodraysPass_setDepthTexture t (Some dp) s)))) =
           GodraysCompositorMaterial.sceneDepth (fullscreenMaterial (compositorPass s))"
  using assms by (simp add: depth_defs Let_def)

text \<open>On the new pass, whose two \<^verbatim>\<open>sceneDepth\<close> uniforms are \<^verbatim>\<open>null\<close>: only one of them changes.\<close>

theorem setDepthTexture_not_atomic_witness:
  "RGBADepthPacking \<noteq> BasicDepthPacking \<and>
   thrown (GodraysPass_setDepthTexture (HostTexture 7) (Some RGBADepthPacking) newPass) =
     Some (Error ''Only BasicDepthPacking is supported'') \<and>
   GodraysMaterial.sceneDepth (material (illumPass newPass)) = None \<and>
   GodraysMaterial.sceneDepth (material (illumPass
       (after (GodraysPass_setDepthTexture (HostTexture 7) (Some RGBADepthPacking) newPass)))) =
     Some (HostTexture 7) \<and>
   GodraysCompositorMaterial.sceneDepth (fullscreenMaterial (compositorPass
       (after (GodraysPass_setDepthTexture (HostTexture 7) (Some RGBADepthPacking) newPass)))) =
     None"
proof -
  have h: "RGBADepthPacking \<noteq> BasicDepthPacking"
    by simp
  have n: "GodraysMaterial.sceneDepth (material (illumPass newPass)) = None"
    "GodraysCompositorMaterial.sceneDepth (fullscreenMaterial (compositorPass newPass)) = None"
    by (simp_all add: newPass_def pass_defs host_defs)
  show ?thesis
    using h n setDepthTexture_not_atomic [OF h, of "HostTexture 7" newPass]
    by simp
qed

section \<open>Resizing\<close>

text \<open>
  Claim C9: \<^verbatim>\<open>setSize(width, height)\<close> called twice with the same arguments leaves the pass,
  with its render target and both resolution uniforms, as one call does.
\<close>

theorem setSize_idempotent:
  "GodraysPass_setSize w h (GodraysPass_setSize w h s) = GodraysPass_setSize w h s"
  by (simp add: size_defs)

text \<open>
  At \<^verbatim>\<open>setSize(5, 5)\<close> the render target is 3 wide, which is not half of 5, and the
  resolution uniform of the illumination pass is \<open>(3, 3)\<close>.
\<close>

theorem setSize_odd_not_half:
  "width (godraysRenderTarget (GodraysPass_setSize 5 5 newPass)) = 3 \<and>
   width (godraysRenderTarget (GodraysPass_setSize 5 5 newPass)) \<noteq> 0.5 * 5 \<and>
   GodraysMaterial.resolution (material (illumPass (GodraysPass_setSize 5 5 newPass))) = (3, 3)"
  by (simp add: size_defs Math_ceil_def GODRAYS_RESOLUTION_SCALE_def)

text \<open>
  Claim C6, as amended: for whole-number dimensions, \<^verbatim>\<open>setSize(width, height)\<close> sets the
  render target and the resolution uniform of the illumination pass to half of each
  dimension rounded up to the next integer; the result is at least the half and less
  than the half plus one.
\<close>

theorem setSize_half_rounded_up:
  assumes "w \<in> \<int>" and "h \<in> \<int>"
  shows "width (godraysRenderTarget (GodraysPass_setSize w h s)) = real_of_int \<lceil>w / 2\<rceil> \<and>
   height (godraysRenderTarget (GodraysPass_setSize w h s)) = real_of_int \<lceil>h / 2\<rceil> \<and>
   GodraysMaterial.resolution (material (illumPass (GodraysPass_setSize w h s))) =
     (real_of_int \<lceil>w / 2\<rceil>, real_of_int \<lceil>h / 2\<rceil>) \<and>
   w / 2 \<le> real_of_int \<lceil>w / 2\<rceil> \<and> real_of_int \<lceil>w / 2\<rceil> < w / 2 + 1 \<and>
   h / 2 \<le> real_of_int \<lceil>h / 2\<rceil> \<and> real_of_int \<lceil>h / 2\<rceil> < h / 2 + 1"
proof -
  have "width (godraysRenderTarget (GodraysPass_setSize w h s)) = real_of_int \<lceil>w / 2\<rceil>"
    by (simp add: size_defs Math_ceil_def GODRAYS_RESOLUTION_SCALE_def)
  moreover have "height (godraysRenderTarget (GodraysPass_setSize w h s)) =
      real_of_int \<lceil>h / 2\<rceil>"
    by (simp add: size_defs Math_ceil_def GODRAYS_RESOLUTION_SCALE_def)
  moreover have "GodraysMaterial.resolution (material (illumPass (GodraysPass_setSize w h s))) =
     (real_of_int \<lceil>w / 2\<rceil>, real_of_int \<lceil>h / 2\<rceil>)"
    by (simp add: size_defs Math_ceil_def GODRAYS_RESOLUTION_SCALE_def)
  moreover have "w / 2 \<le> real_of_int \<lceil>w / 2\<rceil>" "real_of_int \<lceil>w / 2\<rceil> < w / 2 + 1"
    "h / 2 \<le> real_of_int \<lceil>h / 2\<rceil>" "real_of_int \<lceil>h / 2\<rceil> < h / 2 + 1"
    by linarith+
  ultimately show ?thesis
    by simp
qed

text \<open>At \<^verbatim>\<open>setSize(5, 4)\<close>: the target and the resolution of the illumination pass are 3 by 2.\<close>

theorem setSize_half_rounded_up_witness:
  "(5 :: real) \<in> \<int> \<and> (4 :: real) \<in> \<int> \<and>
   width (godraysRenderTarget (GodraysPass_setSize 5 4 newPass)) = 3 \<and>
   height (godraysRenderTarget (GodraysPass_setSize 5 4 newPass)) = 2 \<and>
   GodraysMaterial.resolution (material (illumPass (GodraysPass_setSize 5 4 newPass))) = (3, 2)"
proof -
  have w: "(5 :: real) \<in> \<int>" and h: "(4 :: real) \<in> \<int>"
    by simp_all
  have c: "\<lceil>(5 :: real) / 2\<rceil> = 3" "\<lceil>(4 :: real) / 2\<rceil> = 2"
    by simp_all
  show ?thesis
    using w h setSize_half_rounded_up [OF w h, of newPass]
    by (simp add: c)
qed

text \<open>For an even width the target is exactly half as wide; the compositor keeps the full size.\<close>

lemma setSize_even_exact:
  "width (godraysRenderTarget (GodraysPass_setSize (2 * real_of_int k) h s)) = real_of_int k"
  by (simp add: size_defs Math_ceil_def GODRAYS_RESOLUTION_SCALE_def)

lemma setSize_compositor_full:
  "GodraysCompositorMaterial.resolution
     (fullscreenMaterial (compositorPass (GodraysPass_setSize w h s))) = (w, h)"
  by (simp add: size_defs)

section \<open>A light without a shadow\<close>

text \<open>
  The light whose shadow is not enabled: the constructor returns a pass, \<^verbatim>\<open>setParams\<close>
  returns, and a frame draws both stages with the shadow map handle \<^verbatim>\<open>null\<close>.
\<close>

theorem plain_light_is_accepted:
  "castShadow plainLight = False \<and>
   GodraysPass_new plainLight hostCamera noParams = Inr plainPass \<and>
   thrown (GodraysPass_setParams plainProps denseParams plainPass) = None \<and>
   thrown (GodraysPass_render plainProps hostInput hostOutput (hostRenderer, plainPass)) = None \<and>
   length (draws (fst (after
     (GodraysPass_render plainProps hostInput hostOutput (hostRenderer, plainPass))))) = 2 \<and>
   depthCube (material (illumPass (snd (after
     (GodraysPass_render plainProps hostInput hostOutput (hostRenderer, plainPass)))))) = None"
  by (simp add: plainPass_def pass_defs render_defs host_defs)

text \<open>
  Claim C4, as amended: the constructor of \<^verbatim>\<open>GodraysPass\<close>, \<^verbatim>\<open>setParams\<close> and \<^verbatim>\<open>updateUniforms\<close>
  of the illumination pass throw \<^verbatim>\<open>Error("Point light must have shadow")\<close>, at that call
  and leaving the pass as it was, when the light has no shadow object. A light that
  has the shadow object is accepted, whether its shadow is enabled or not: the
  constructor returns a pass whose shadow map handle is the texture of the light's
  shadow map, \<^verbatim>\<open>null\<close> while there is no map, and \<^verbatim>\<open>setParams\<close> and \<^verbatim>\<open>updateUniforms\<close> return.
\<close>

theorem shadow_object_decides:
  "(shadow light = None \<longrightarrow>
      GodraysPass_new light cam pp = Inl (Error ''Point light must have shadow'') \<and>
      GodraysPass_setParams \<lparr>pointLight = light, GodraysPassProps.camera = cam\<rparr> pp s =
        Throw (Error ''Point light must have shadow'') s \<and>
      GodraysIllumPass_updateUniforms
          \<lparr>pointLight = light, GodraysPassProps.camera = cam\<rparr> ps i =
        Throw (Error ''Point light must have shadow'') i) \<and>
   (\<forall>sh. shadow light = Some sh \<longrightarrow>
      \<not> isl (GodraysPass_new light cam pp) \<and>
      depthCube (material (illumPass (projr (GodraysPass_new light cam pp)))) =
        map_option texture (map_target sh) \<and>
      thrown (GodraysPass_setParams
          \<lparr>pointLight = light, GodraysPassProps.camera = cam\<rparr> pp s) = None \<and>
      thrown (GodraysIllumPass_updateUniforms
          \<lparr>pointLight = light, GodraysPassProps.camera = cam\<rparr> ps i) = None)"
proof (cases "shadow light")
  case None
  then show ?thesis
    by (simp add: pass_defs)
next
  case (Some sh)
  then show ?thesis
    by (simp add: pass_defs Let_def split: option.split)
qed

text \<open>
  At the host's light with the shadow object taken away, and at the light whose shadow
  is not enabled.
\<close>

theorem shadow_object_decides_witness:
  "shadow (hostLight\<lparr>shadow := None\<rparr>) = None \<and>
   GodraysPass_new (hostLight\<lparr>shadow := None\<rparr>) hostCamera denseParams =
     Inl (Error ''Point light must have shadow'') \<and>
   GodraysPass_setParams
       \<lparr>pointLight = hostLight\<lparr>shadow := None\<rparr>, GodraysPassProps.camera = hostCamera\<rparr>
       denseParams newPass =
     Throw (Error ''Point light must have shadow'') newPass \<and>
   shadow plainLight =
     Some \<lparr>map_target = None, PointLightShadow.camera = hostShadowCamera\<rparr> \<and>
   \<not> isl (GodraysPass_new plainLight hostCamera denseParams) \<and>
   depthCube (material (illumPass (projr (GodraysPass_new plainLight hostCamera denseParams)))) =
     None \<and>
   thrown (GodraysPass_setParams
       \<lparr>pointLight = plainLight, GodraysPassProps.camera = hostCamera\<rparr> denseParams newPass) =
     None"
proof -
  have n: "shadow (hostLight\<lparr>shadow := None\<rparr>) = None"
    by simp
  have p: "shadow plainLight =
     Some \<lparr>map_target = None, PointLightShadow.camera = hostShadowCamera\<rparr>"
    by (simp add: host_defs)
  show ?thesis
    using n p
      shadow_object_decides
        [where light = "hostLight\<lparr>shadow := None\<rparr>" and cam = hostCamera
           and pp = denseParams and s = newPass]
      shadow_object_decides
        [where light = plainLight and cam = hostCamera and pp = denseParams and s = newPass]
    by simp
qed

text \<open>
  A frame of a pass that has not yet seen a shadow map throws when the light has no
  shadow object, before any draw; once \<^verbatim>\<open>shadowMapSet\<close> is true a frame does not read the
  light and returns.
\<close>

lemma render_without_shadow_throws:
  assumes "shadow (pointLight pr) = None" and "\<not> shadowMapSet (illumPass s)"
  shows "GodraysPass_render pr inputBuffer outputBuffer (rr, s) =
     Throw (TypeError ''Cannot read properties of undefined (reading map)'') (rr, s)"
  using assms by (simp add: render_defs)

lemma render_after_shadow_map_set:
  assumes "shadowMapSet (illumPass s)"
  shows "thrown (GodraysPass_render pr inputBuffer outputBuffer (rr, s)) = None"
  using assms by (simp add: render_defs)

section \<open>The frame\<close>

text \<open>
  The compositor's \<^verbatim>\<open>godrays\<close> uniform is the texture of the pass's own render target
  from the constructor on; no operation changes either.
\<close>

lemma new_godrays_is_target:
  assumes "GodraysPass_new light cam pp = Inr s"
  shows "GodraysCompositorMaterial.godrays (fullscreenMaterial (compositorPass s)) =
           texture (godraysRenderTarget s)"
  using assms
  by (auto simp add: pass_defs Let_def split: option.splits sum.splits outcome.splits)

lemma setSize_keeps_godrays:
  "GodraysCompositorMaterial.godrays (fullscreenMaterial (compositorPass (GodraysPass_setSize w h s))) =
     GodraysCompositorMaterial.godrays (fullscreenMaterial (compositorPass s)) \<and>
   texture (godraysRenderTarget (GodraysPass_setSize w h s)) = texture (godraysRenderTarget s)"
  by (simp add: size_defs)

lemma setParams_keeps_godrays:
  "GodraysCompositorMaterial.godrays
     (fullscreenMaterial (compositorPass (after (GodraysPass_setParams pr pp s)))) =
     GodraysCompositorMaterial.godrays (fullscreenMaterial (compositorPass s)) \<and>
   godraysRenderTarget (after (GodraysPass_setParams pr pp s)) = godraysRenderTarget s"
  by (simp add: pass_defs Let_def split: option.split)

lemma setDepthTexture_keeps_godrays:
  "GodraysCompositorMaterial.godrays
     (fullscreenMaterial (compositorPass (after (GodraysPass_setDepthTexture t dp s)))) =
     GodraysCompositorMaterial.godrays (fullscreenMaterial (compositorPass s)) \<and>
   godraysRenderTarget (after (GodraysPass_setDepthTexture t dp s)) = godraysRenderTarget s"
  by (simp add: depth_defs Let_def)

text \<open>
  Claim C8: \<^verbatim>\<open>GodraysPass.render\<close>, for a light with a shadow, asks the renderer for two draws
  in this order: first the illumination material into the pass's own render target, then
  the compositor material into the output buffer (the screen when \<^verbatim>\<open>renderToScreen\<close> is
  set); the compositor material drawn has the texture of that render target as its
  \<^verbatim>\<open>godrays\<close> uniform and the texture of the input buffer as its \<^verbatim>\<open>sceneDiffuse\<close>.
\<close>

theorem render_illum_then_compositor:
  assumes "shadowMapSet (illumPass s) \<or> shadow (pointLight pr) \<noteq> None"
    and "GodraysCompositorMaterial.godrays (fullscreenMaterial (compositorPass s)) =
           texture (godraysRenderTarget s)"
  shows "thrown (GodraysPass_render pr inputBuffer outputBuffer (rr, s)) = None \<and>
    draws (fst (after (GodraysPass_render pr inputBuffer outputBuffer (rr, s)))) =
      draws rr @
      [(IllumMaterial (material (illumPass
           (snd (after (GodraysPass_render pr inputBuffer outputBuffer (rr, s)))))),
        Some (godraysRenderTarget s)),
       (CompositorMaterial (fullscreenMaterial (compositorPass
           (snd (after (GodraysPass_render pr inputBuffer outputBuffer (rr, s)))))),
        if renderToScreen s then None else Some outputBuffer)] \<and>
    GodraysCompositorMaterial.godrays (fullscreenMaterial (compositorPass
        (snd (after (GodraysPass_render pr inputBuffer outputBuffer (rr, s)))))) =
      texture (godraysRenderTarget s) \<and>
    sceneDiffuse (fullscreenMaterial (compositorPass
        (snd (after (GodraysPass_render pr inputBuffer outputBuffer (rr, s)))))) =
      Some (texture inputBuffer) \<and>
    godraysRenderTarget (snd (after (GodraysPass_render pr inputBuffer outputBuffer (rr, s)))) =
      godraysRenderTarget s"
proof (cases "shadowMapSet (illumPass s)")
  case True
  then show ?thesis
    using assms(2) by (simp add: render_defs)
next
  case False
  with assms(1) obtain sh where sh: "shadow (pointLight pr) = Some sh"
    by blast
  show ?thesis
  proof (cases "map_target sh")
    case None
    then show ?thesis
      using False sh assms(2) by (simp add: render_defs)
  next
    case (Some t)
    then show ?thesis
      using False sh assms(2) by (simp add: render_defs GodraysIllumPass_updateUniforms_def)
  qed
qed

text \<open>The first frame of the new pass: a draw into the 1 by 1 target, then one into the output.\<close>

theorem render_illum_then_compositor_witness:
  "(shadowMapSet (illumPass newPass) \<or> shadow (pointLight hostProps) \<noteq> None) \<and>
   GodraysCompositorMaterial.godrays (fullscreenMaterial (compositorPass newPass)) =
     texture (godraysRenderTarget newPass) \<and>
   thrown (GodraysPass_render hostProps hostInput hostOutput (hostRenderer, newPass)) = None \<and>
   map snd (draws (fst (after
       (GodraysPass_render hostProps hostInput hostOutput (hostRenderer, newPass))))) =
     [Some \<lparr>texture = GodraysTexture, width = 1, height = 1\<rparr>, Some hostOutput] \<and>
   GodraysCompositorMaterial.godrays (fullscreenMaterial (compositorPass
       (snd (after (GodraysPass_render hostProps hostInput hostOutput (hostRenderer, newPass)))))) =
     GodraysTexture \<and>
   sceneDiffuse (fullscreenMaterial (compositorPass
       (snd (after (GodraysPass_render hostProps hostInput hostOutput (hostRenderer, newPass)))))) =
     Some (HostTexture 10)"
proof -
  have h: "shadowMapSet (illumPass newPass) \<or> shadow (pointLight hostProps) \<noteq> None"
    by (simp add: host_defs)
  have g: "GodraysCompositorMaterial.godrays (fullscreenMaterial (compositorPass newPass)) =
     texture (godraysRenderTarget newPass)"
    by (simp add: newPass_def pass_defs host_defs)
  have t: "godraysRenderTarget newPass = \<lparr>texture = GodraysTexture, width = 1, height = 1\<rparr>"
    by (simp add: newPass_def pass_defs host_defs)
  have r: "renderToScreen newPass = False" "draws hostRenderer = []"
    "texture hostInput = HostTexture 10"
    by (simp_all add: newPass_def pass_defs host_defs)
  show ?thesis
    using h g render_illum_then_compositor [OF h g, of hostInput hostOutput hostRenderer]
    by (simp add: t r)
qed

section \<open>Frames and the shadow map\<close>

text \<open>
  While the light's shadow has no map, \<^verbatim>\<open>render\<close> of the illumination pass returns, draws
  and leaves the pass as it is. On a frame that finds the map with \<^verbatim>\<open>shadowMapSet\<close> still
  false it runs \<^verbatim>\<open>updateUniforms\<close> with \<^verbatim>\<open>lastParams\<close>, a field that the constructor sets
  and that neither \<^verbatim>\<open>updateUniforms\<close> nor \<^verbatim>\<open>setParams\<close> assigns.
\<close>

lemma illum_render_without_shadow_map:
  assumes "shadow (pointLight pr) = Some sh" and "map_target sh = None"
  shows "GodraysIllumPass_render pr out (rr, s) = Return (GodraysIllumPass_draw out rr s, s)"
  using assms by (simp add: GodraysIllumPass_render_def)

lemma illum_render_first_shadow_map:
  assumes "shadow (pointLight pr) = Some sh" and "map_target sh = Some t" and "\<not> shadowMapSet s"
  shows "snd (after (GodraysIllumPass_render pr out (rr, s))) =
     (after (GodraysIllumPass_updateUniforms pr (lastParams s) s))\<lparr>shadowMapSet := True\<rparr>"
  using assms by (simp add: GodraysIllumPass_render_def GodraysIllumPass_updateUniforms_def)

lemma updateUniforms_keeps_lastParams:
  "lastParams (after (GodraysIllumPass_updateUniforms pr ps s)) = lastParams s"
  by (simp add: GodraysIllumPass_updateUniforms_def split: option.split)

lemma setParams_keeps_lastParams:
  "lastParams (illumPass (after (GodraysPass_setParams pr pp s))) = lastParams (illumPass s)"
  by (simp add: GodraysPass_setParams_def GodraysIllumPass_updateUniforms_def Let_def split: option.split)

text \<open>
  Claim C3, where the code departs from it: after \<^verbatim>\<open>setParams({ density: 1 })\<close> the density
  uniform is 1 and stays 1 over a frame without shadow map; the first frame that finds
  the shadow map sets it to \<open>1/128\<close>, the value of the constructor's parameters, and not
  to the current one.
\<close>

theorem first_shadow_frame_reverts_params:
  "GodraysMaterial.density (material (illumPass densePass)) = Some 1 \<and>
   GodraysMaterial.density (material (illumPass (frame hostProps densePass))) = Some 1 \<and>
   GodraysMaterial.density (material (illumPass
       (frame (hostPropsWithMap 1) (frame hostProps densePass)))) = Some (1 / 128) \<and>
   depthCube (material (illumPass
       (frame (hostPropsWithMap 1) (frame hostProps densePass)))) = Some (HostTexture 1)"
  by (simp add: frame_def densePass_def newPass_def pass_defs render_defs host_defs)

text \<open>
  \<^verbatim>\<open>updateUniforms\<close> stores references to the light's position and to the camera's position
  and matrices.
\<close>

lemma updateUniforms_binds:
  assumes "shadow (pointLight pr) \<noteq> None"
  shows "thrown (GodraysIllumPass_updateUniforms pr ps s) = None \<and>
    lightPos (material (after (GodraysIllumPass_updateUniforms pr ps s))) =
      Ref (PointLight.position (pointLight pr)) \<and>
    cameraPos (material (after (GodraysIllumPass_updateUniforms pr ps s))) =
      Ref (Camera.position (GodraysPassProps.camera pr)) \<and>
    projectionMatrixInv (material (after (GodraysIllumPass_updateUniforms pr ps s))) =
      Ref (projectionMatrixInverse (GodraysPassProps.camera pr)) \<and>
    viewMatrixInv (material (after (GodraysIllumPass_updateUniforms pr ps s))) =
      Ref (matrixWorld (GodraysPassProps.camera pr))"
  using assms by (auto simp add: GodraysIllumPass_updateUniforms_def)

text \<open>
  After a frame that found the shadow map 1, the host replaces the map; the next frame
  leaves the \<^verbatim>\<open>depthCube\<close> uniform at the texture of the map that is gone.
\<close>

theorem shadow_map_handle_stale:
  "shadow (pointLight (hostPropsWithMap 2)) =
     Some \<lparr>map_target = Some (shadowTarget 2), PointLightShadow.camera = hostShadowCamera\<rparr> \<and>
   texture (shadowTarget 2) = HostTexture 2 \<and>
   depthCube (material (illumPass
       (frame (hostPropsWithMap 2) (frame (hostPropsWithMap 1) newPass)))) = Some (HostTexture 1) \<and>
   depthCube (material (illumPass
       (frame (hostPropsWithMap 2) (frame (hostPropsWithMap 1) newPass)))) \<noteq>
     Some (texture (shadowTarget 2))"
  by (simp add: frame_def newPass_def pass_defs render_defs host_defs)

text \<open>
  Claim C7, as amended: the uniforms for the light and camera positions, the inverse
  projection matrix and the world matrix are references to the host's objects, so a
  frame's draw reads what the host has put there, with no call of \<^verbatim>\<open>setParams\<close>. The
  shadow map handle is a copy: \<^verbatim>\<open>render\<close> takes it anew only on the first frame that finds
  a shadow map, and once \<^verbatim>\<open>shadowMapSet\<close> is true it changes no uniform at all.
\<close>

theorem illum_render_reads_host_objects:
  assumes "shadow (pointLight pr) = Some sh"
    and "lightPos (material s) = Ref (PointLight.position (pointLight pr))"
    and "cameraPos (material s) = Ref (Camera.position (GodraysPassProps.camera pr))"
    and "projectionMatrixInv (material s) =
           Ref (projectionMatrixInverse (GodraysPassProps.camera pr))"
    and "viewMatrixInv (material s) = Ref (matrixWorld (GodraysPassProps.camera pr))"
  shows "thrown (GodraysIllumPass_render pr out (rr, s)) = None \<and>
    draws (fst (after (GodraysIllumPass_render pr out (rr, s)))) =
      draws rr @ [(IllumMaterial (material (snd (after (GodraysIllumPass_render pr out (rr, s))))),
                   Some out)] \<and>
    readVector3 H (lightPos (material (snd (after (GodraysIllumPass_render pr out (rr, s)))))) =
      vector3s H (PointLight.position (pointLight pr)) \<and>
    readVector3 H (cameraPos (material (snd (after (GodraysIllumPass_render pr out (rr, s)))))) =
      vector3s H (Camera.position (GodraysPassProps.camera pr)) \<and>
    readMatrix4 H (projectionMatrixInv
        (material (snd (after (GodraysIllumPass_render pr out (rr, s)))))) =
      matrix4s H (projectionMatrixInverse (GodraysPassProps.camera pr)) \<and>
    readMatrix4 H (viewMatrixInv
        (material (snd (after (GodraysIllumPass_render pr out (rr, s)))))) =
      matrix4s H (matrixWorld (GodraysPassProps.camera pr)) \<and>
    depthCube (material (snd (after (GodraysIllumPass_render pr out (rr, s))))) =
      (if \<not> shadowMapSet s \<and> map_target sh \<noteq> None
       then map_option texture (map_target sh)
       else depthCube (material s)) \<and>
    (shadowMapSet s \<longrightarrow>
       material (snd (after (GodraysIllumPass_render pr out (rr, s)))) = material s)"
proof (cases "\<not> shadowMapSet s \<and> map_target sh \<noteq> None")
  case True
  then show ?thesis
    using assms(1)
    by (auto simp add: GodraysIllumPass_render_def GodraysIllumPass_updateUniforms_def
        GodraysIllumPass_draw_def WebGLRenderer_render_def WebGLRenderer_setRenderTarget_def)
next
  case False
  then have same: "GodraysIllumPass_render pr out (rr, s) =
      Return (GodraysIllumPass_draw out rr s, s)"
    using assms(1) by (auto simp add: GodraysIllumPass_render_def)
  show ?thesis
    using False assms(2-5)
    by (auto simp add: same GodraysIllumPass_draw_def WebGLRenderer_render_def
        WebGLRenderer_setRenderTarget_def)
qed

lemma shadowedIllum_eval:
  "shadowMapSet shadowedIllum"
  "depthCube (material shadowedIllum) = Some (HostTexture 1)"
  "lightPos (material shadowedIllum) = Ref 1"
  "cameraPos (material shadowedIllum) = Ref 2"
  "projectionMatrixInv (material shadowedIllum) = Ref 3"
  "viewMatrixInv (material shadowedIllum) = Ref 4"
  by (simp_all add: shadowedIllum_def frame_def newPass_def pass_defs render_defs host_defs)

theorem illum_render_reads_host_objects_witness:
  "shadow (pointLight (hostPropsWithMap 2)) =
     Some \<lparr>map_target = Some (shadowTarget 2), PointLightShadow.camera = hostShadowCamera\<rparr> \<and>
   lightPos (material shadowedIllum) = Ref (PointLight.position (pointLight (hostPropsWithMap 2))) \<and>
   cameraPos (material shadowedIllum) =
     Ref (Camera.position (GodraysPassProps.camera (hostPropsWithMap 2))) \<and>
   projectionMatrixInv (material shadowedIllum) =
     Ref (projectionMatrixInverse (GodraysPassProps.camera (hostPropsWithMap 2))) \<and>
   viewMatrixInv (material shadowedIllum) =
     Ref (matrixWorld (GodraysPassProps.camera (hostPropsWithMap 2))) \<and>
   thrown (GodraysIllumPass_render (hostPropsWithMap 2) hostOutput (hostRenderer, shadowedIllum)) =
     None \<and>
   readVector3 hostHeap (lightPos (material (snd (after
       (GodraysIllumPass_render (hostPropsWithMap 2) hostOutput (hostRenderer, shadowedIllum)))))) =
     (1, 20, 0) \<and>
   depthCube (material (snd (after
       (GodraysIllumPass_render (hostPropsWithMap 2) hostOutput (hostRenderer, shadowedIllum))))) =
     Some (HostTexture 1)"
proof -
  have h: "shadow (pointLight (hostPropsWithMap 2)) =
     Some \<lparr>map_target = Some (shadowTarget 2), PointLightShadow.camera = hostShadowCamera\<rparr>"
    by (simp add: host_defs)
  have b: "lightPos (material shadowedIllum) =
      Ref (PointLight.position (pointLight (hostPropsWithMap 2)))"
    "cameraPos (material shadowedIllum) =
      Ref (Camera.position (GodraysPassProps.camera (hostPropsWithMap 2)))"
    "projectionMatrixInv (material shadowedIllum) =
      Ref (projectionMatrixInverse (GodraysPassProps.camera (hostPropsWithMap 2)))"
    "viewMatrixInv (material shadowedIllum) =
      Ref (matrixWorld (GodraysPassProps.camera (hostPropsWithMap 2)))"
    by (simp_all add: shadowedIllum_eval host_defs)
  have v: "vector3s hostHeap (PointLight.position (pointLight (hostPropsWithMap 2))) = (1, 20, 0)"
    by (simp add: hostHeap_def host_defs)
  show ?thesis
    using h b illum_render_reads_host_objects
      [OF h b, of hostOutput hostRenderer hostHeap]
    by (simp add: v shadowedIllum_eval)
qed

section \<open>The accumulated density\<close>

lemma stepContribution_nonneg: "0 \<le> d \<Longrightarrow> 0 \<le> stepContribution d att smp"
  by (simp add: stepContribution_def)

lemma accumulate_bounds:
  assumes "0 \<le> d" and "0 \<le> acc" and "acc \<le> md"
  shows "0 \<le> accumulate d md att acc smps \<and> accumulate d md att acc smps \<le> md"
  using assms
proof (induction smps arbitrary: acc)
  case Nil
  then show ?case
    by simp
next
  case (Cons smp smps)
  have c: "0 \<le> stepContribution d att smp"
    using Cons.prems(1) by (rule stepContribution_nonneg)
  have "0 \<le> min md (acc + stepContribution d att smp)"
    using c Cons.prems by simp
  moreover have "min md (acc + stepContribution d att smp) \<le> md"
    by simp
  ultimately show ?case
    using Cons.IH [OF Cons.prems(1)] by simp
qed

text \<open>
  \<^verbatim>\<open>setParams({ maxDensity: -1 })\<close> puts \<open>-1\<close> into the uniform, and with that maximum one lit
  sample gives the density \<open>-1\<close>; with the density \<open>-1\<close> and the default maximum as well.
  Neither is in the range from 0 to \<^verbatim>\<open>maxDensity\<close>.
\<close>

theorem negative_params_negative_density:
  "GodraysMaterial.maxDensity
     (material (illumPass (after (GodraysPass_setParams hostProps
        (noParams\<lparr>Partial_GodraysPassParams.maxDensity := Present (Some (- 1))\<rparr>) newPass)))) =
     Some (- 1) \<and>
   densityAccumulator (1 / 128) (- 1) (1 / 200) [\<lparr>lit = True, distanceFromLight = 0\<rparr>] = - 1 \<and>
   \<not> 0 \<le> densityAccumulator (1 / 128) (- 1) (1 / 200) [\<lparr>lit = True, distanceFromLight = 0\<rparr>] \<and>
   GodraysMaterial.density
     (material (illumPass (after (GodraysPass_setParams hostProps
        (noParams\<lparr>Partial_GodraysPassParams.density := Present (Some (- 1))\<rparr>) newPass)))) =
     Some (- 1) \<and>
   densityAccumulator (- 1) (1 / 2) (1 / 200) [\<lparr>lit = True, distanceFromLight = 0\<rparr>] = - 1"
  by (simp add: densityAccumulator_def stepContribution_def newPass_def pass_defs host_defs)

text \<open>
  Claim C5, as amended: when the \<^verbatim>\<open>density\<close> and \<^verbatim>\<open>maxDensity\<close> that the shader reads are not
  negative, the accumulated density of a pixel is at least 0 and at most \<^verbatim>\<open>maxDensity\<close>,
  for every attenuation, every number of steps and every sequence of samples.
\<close>

theorem density_in_range:
  assumes "0 \<le> d" and "0 \<le> md"
  shows "0 \<le> densityAccumulator d md att smps \<and> densityAccumulator d md att smps \<le> md"
  unfolding densityAccumulator_def
  using assms by (intro accumulate_bounds) simp_all

text \<open>
  With the uniforms of the new pass, which are the defaults: a lit sample at the light
  and an occluded one.
\<close>

theorem density_in_range_witness:
  "GodraysMaterial.density (material (illumPass newPass)) = Some (1 / 128) \<and>
   GodraysMaterial.maxDensity (material (illumPass newPass)) = Some (1 / 2) \<and>
   GodraysMaterial.distanceAttenuation (material (illumPass newPass)) = Some (1 / 200) \<and>
   (0 :: real) \<le> 1 / 128 \<and> (0 :: real) \<le> 1 / 2 \<and>
   0 \<le> densityAccumulator (1 / 128) (1 / 2) (1 / 200)
          [\<lparr>lit = True, distanceFromLight = 0\<rparr>, \<lparr>lit = False, distanceFromLight = 3\<rparr>] \<and>
   densityAccumulator (1 / 128) (1 / 2) (1 / 200)
     [\<lparr>lit = True, distanceFromLight = 0\<rparr>, \<lparr>lit = False, distanceFromLight = 3\<rparr>] \<le> 1 / 2"
proof -
  have u: "GodraysMaterial.density (material (illumPass newPass)) = Some (1 / 128)"
    "GodraysMaterial.maxDensity (material (illumPass newPass)) = Some (1 / 2)"
    "GodraysMaterial.distanceAttenuation (material (illumPass newPass)) = Some (1 / 200)"
    by (simp_all add: newPass_def pass_defs host_defs)
  have d: "(0 :: real) \<le> 1 / 128" and m: "(0 :: real) \<le> 1 / 2"
    by simp_all
  show ?thesis
    using u d m density_in_range [OF d m, of "1 / 200"
        "[\<lparr>lit = True, distanceFromLight = 0\<rparr>, \<lparr>lit = False, distanceFromLight = 3\<rparr>]"]
    by simp
qed

end
